theory Spec2Isabelle
  imports Complex_Main "HOL-Library.Signed_Division" "HOL-Library.Word"
begin

section \<open>Dataset loading and feature binning: src/io/dataset_loader.cpp\<close>

text \<open>
  Conventions of the embedding. \<open>int\<close> and \<open>data_size_t\<close> are 32-bit signed
  integers. A value of these types is a HOL integer; where the source narrows a
  \<open>size_t\<close> to \<open>int\<close> the model applies \<open>static_cast_int\<close>, and where an
  \<open>int\<close> sum can leave the 32-bit range (line 659) it applies \<open>int32\<close>: both wrap
  around modulo \<open>2^32\<close>. The other \<open>int\<close> operations of the file (comparisons,
  \<open>tmp -= 1\<close> under \<open>tmp > label_idx_\<close>, \<open>++qid\<close> under
  \<open>qid < num_queries\<close>, \<open>start[i] + len[i]\<close> below \<open>total_num_feature\<close>) stay in
  range whenever their operands are, so there the HOL operation is the machine operation.
  The column index of a parsed pair is a \<open>32 word\<close>, read as signed. Integer division
  truncates towards zero and is written \<open>sdiv\<close>. A \<open>double\<close> is a real number.

  \<open>Log::Fatal\<close>, a failed \<open>CHECK\<close>, an invalid access, an allocation that cannot
  succeed and an integer division by zero end the process; they are values of the type
  \<open>error\<close>, returned on the left of a sum.
\<close>

datatype error =
    Fatal string
  | CheckFailed string
  | OutOfRange string
  | BadAlloc
  | DivisionByZero

definition int32 :: "int \<Rightarrow> int" where
  "int32 x = (x + 2147483648) mod 4294967296 - 2147483648"

definition static_cast_int :: "nat \<Rightarrow> int" where
  "static_cast_int n = int32 (int n)"

definition bind_err :: "error + 'a \<Rightarrow> ('a \<Rightarrow> error + 'b) \<Rightarrow> error + 'b" where
  "bind_err r k = (case r of Inl e \<Rightarrow> Inl e | Inr a \<Rightarrow> k a)"

fun fold_err :: "('a \<Rightarrow> 's \<Rightarrow> error + 's) \<Rightarrow> 'a list \<Rightarrow> 's \<Rightarrow> error + 's" where
  "fold_err f [] s = Inr s"
| "fold_err f (x # xs) s = (case f x s of Inl e \<Rightarrow> Inl e | Inr s' \<Rightarrow> fold_err f xs s')"

subsection \<open>Data model\<close>

text \<open>
  \<open>IOConfig\<close> holds the fields of \<open>io_config_\<close> that the loader reads. The members
  of the C++ classes carry a trailing underscore (\<open>label_idx_\<close>), dropped here; two
  fields of \<open>Dataset\<close> that would clash with other records are prefixed with
  \<open>dataset_\<close>, and the generator \<open>random_\<close> is the field \<open>random_rng\<close>.
\<close>

record IOConfig =
  has_header :: bool
  label_column :: string
  weight_column :: string
  group_column :: string
  ignore_column :: string
  max_bin :: int
  bin_construct_sample_cnt :: int
  use_two_round_loading :: bool
  is_pre_partition :: bool
  is_enable_sparse :: bool
  num_class :: int
  data_random_seed :: int

text \<open>
  The state of a \<open>DatasetLoader\<close>. \<open>warnings\<close> collects, in order, the messages
  written through \<open>Log::Warning\<close>.
\<close>

record 'r DatasetLoader =
  io_config :: IOConfig
  random_rng :: 'r
  label_idx :: int
  weight_idx :: int
  group_idx :: int
  ignore_features :: "int set"
  feature_names :: "string list"
  warnings :: "string list"

text \<open>
  A \<open>Feature\<close> as the loader constructs it: the original column, the bin mapper it
  owns, the row count and the sparse flag. The rows pushed into a feature, and the labels,
  weights and query ids stored by \<open>Metadata\<close>, live in classes outside this file;
  \<open>Metadata\<close> is represented by the calls the loader makes on it, in order.
\<close>

record 'bm Feature =
  feature_index :: int
  bin_mapper :: 'bm
  feature_num_data :: int
  feature_is_sparse :: bool

datatype metadata_call =
    Init_from_file string int
  | Init_data int int int int
  | LoadFromMemory
  | PartitionLabel "nat list"
  | CheckOrPartition int "nat list"

record 'bm Dataset =
  data_filename :: string
  num_data :: int
  dataset_num_class :: int
  num_features :: int
  num_total_features :: int
  used_feature_map :: "int list"
  dataset_feature_names :: "string list"
  features :: "'bm Feature list"
  metadata :: "metadata_call list"
  is_loading_from_binfile :: bool

text \<open>
  The parsed content of a binary cache \<open><path>.bin\<close>: the header fields in file
  order, the query boundaries held by its metadata block, and the feature blobs.
  \<open>header_defect\<close> is the message of the first failed \<open>fread\<close> check of the
  header or metadata block, if any.
\<close>

record 'bm bin_file =
  header_defect :: "string option"
  bin_num_data :: int
  bin_num_class :: int
  bin_num_features :: int
  bin_num_total_features :: int
  bin_used_feature_map :: "int list"
  bin_feature_names :: "string list"
  bin_query_boundaries :: "int list option"
  bin_num_queries :: int
  bin_features :: "'bm Feature list"

type_synonym parser = "string \<Rightarrow> (32 word \<times> real) list \<times> real"

text \<open>
  What a call sees of the data file: its name, header line and data lines, the parser
  that \<open>Parser::CreateParser\<close> recognises for its format (a function of the label
  index; \<open>None\<close> for the null parser), the query boundaries that
  \<open>Metadata::Init(filename, num_class)\<close> loads from the side query file, and the binary
  cache next to it.
\<close>

record 'bm data_file =
  filename :: string
  first_line :: string
  data_lines :: "string list"
  format_parser :: "(int \<Rightarrow> parser) option"
  query_boundaries :: "int list option"
  num_queries :: int
  bin_cache :: "'bm bin_file option"

text \<open>
  The collaborators whose code is outside this file are parameters of the model:
  \<open>Common::Split\<close> and \<open>Common::AtoiAndCheck\<close>, \<open>BinMapper::FindBin\<close> and
  \<open>BinMapper::is_trival\<close>, \<open>Random::NextInt\<close> and \<open>Random::Sample\<close> (which
  return the advanced generator), and the bin mapper that the machine owning a column
  contributes to \<open>Network::Allgather\<close>.
\<close>

record ('bm, 'r) collaborators =
  Split :: "string \<Rightarrow> string \<Rightarrow> string list"
  AtoiAndCheck :: "string \<Rightarrow> int option"
  FindBin :: "real list \<Rightarrow> nat \<Rightarrow> int \<Rightarrow> 'bm"
  is_trival :: "'bm \<Rightarrow> bool"
  NextInt :: "'r \<Rightarrow> int \<Rightarrow> int \<Rightarrow> int \<times> 'r"
  Sample :: "'r \<Rightarrow> int \<Rightarrow> int \<Rightarrow> int list \<times> 'r"
  remote_bin_mapper :: "nat \<Rightarrow> 'bm"

definition NO_SPECIFIC :: int where
  \<comment> \<open>Modelled from the spec: the constant \<open>NO_SPECIFIC\<close> is declared outside this
     file; the spec gives it as the sentinel \<open>-1\<close>.\<close>
  "NO_SPECIFIC = - 1"

definition new_DatasetLoader :: "IOConfig \<Rightarrow> 'r \<Rightarrow> 'r DatasetLoader" where
  \<comment> \<open>Modelled from the spec: the member initialisers are in the class declaration,
     outside this file; the spec gives \<open>label_idx\<close> the default 0 and the other two
     roles the sentinel. The second argument is the generator seeded with
     \<open>data_random_seed\<close>.\<close>
  "new_DatasetLoader cfg seeded =
     \<lparr>io_config = cfg, random_rng = seeded, label_idx = 0, weight_idx = NO_SPECIFIC,
      group_idx = NO_SPECIFIC, ignore_features = {}, feature_names = [], warnings = []\<rparr>"

definition new_Dataset :: "'bm Dataset" where
  \<comment> \<open>Modelled from the spec: the default constructor of \<open>Dataset\<close> is outside this
     file; every field the loader later reads is assigned by the loader first.\<close>
  "new_Dataset =
     \<lparr>data_filename = [], num_data = 0, dataset_num_class = 0, num_features = 0,
      num_total_features = 0, used_feature_map = [], dataset_feature_names = [],
      features = [], metadata = [], is_loading_from_binfile = False\<rparr>"


subsection \<open>SetHeader: resolving the column roles\<close>

definition name_prefix :: string where
  "name_prefix = ''name:''"

definition StartsWith :: "string \<Rightarrow> string \<Rightarrow> bool" where
  \<comment> \<open>Modelled from the spec: \<open>Common::StartsWith\<close> is outside this file; the
     spec's "the string begins with \<open>name:\<close>".\<close>
  "StartsWith s p = (take (length p) s = p)"

definition header_delimiters :: string where
  "header_delimiters = [CHR 0x09, CHR '' '', CHR '','']"

text \<open>
  \<open>name2idx[feature_names_[i]] = i\<close> for ascending \<open>i\<close>: a later column of the same
  name overwrites an earlier one.
\<close>

definition build_name2idx :: "string list \<Rightarrow> (string \<rightharpoonup> int)" where
  "build_name2idx names =
     fold (\<lambda>i m. m(names ! i \<mapsto> static_cast_int i)) [0..<length names] Map.empty"

text \<open>
  The resolution of one role string, written out three times in the source (label, weight,
  group) with different messages: a \<open>name:\<close> string is looked up in \<open>name2idx\<close>,
  any other string goes through \<open>AtoiAndCheck\<close>; both failures are fatal.
\<close>

definition resolve_column ::
  "('bm, 'r) collaborators \<Rightarrow> (string \<rightharpoonup> int) \<Rightarrow> string \<Rightarrow> string \<Rightarrow> string \<Rightarrow> error + int" where
  "resolve_column ext name2idx column not_found not_a_number =
     (if StartsWith column name_prefix then
        (let name = drop (length name_prefix) column
         in case name2idx name of
              Some idx \<Rightarrow> Inr idx
            | None \<Rightarrow> Inl (Fatal (not_found @ name)))
      else
        (case AtoiAndCheck ext column of
           Some idx \<Rightarrow> Inr idx
         | None \<Rightarrow> Inl (Fatal not_a_number)))"

text \<open>The comment "skip for label column": \<open>if (tmp > label_idx_) { tmp -= 1; }\<close>.\<close>

definition skip_label :: "int \<Rightarrow> int \<Rightarrow> int" where
  "skip_label label tmp = (if tmp > label then tmp - 1 else tmp)"

text \<open>Lines 25-56: the header names, the label index, and the erased label name.\<close>

definition load_label ::
  "('bm, 'r) collaborators \<Rightarrow> string \<Rightarrow> 'r DatasetLoader \<Rightarrow> error + ((string \<rightharpoonup> int) \<times> 'r DatasetLoader)" where
  "load_label ext first L =
     (let cfg = io_config L;
          names = (if has_header cfg then Split ext first header_delimiters else feature_names L);
          name2idx = (if has_header cfg then build_name2idx names else Map.empty)
      in bind_err
           (if label_column cfg \<noteq> [] then
              resolve_column ext name2idx (label_column cfg)
                ''Could not find label column '' ''label_column is not a number''
            else Inr (label_idx L))
           (\<lambda>label.
              if names \<noteq> [] then
                (if 0 \<le> label \<and> label < int (length names) then
                   Inr (name2idx, L\<lparr>label_idx := label,
                          feature_names := take (nat label) names @ drop (Suc (nat label)) names\<rparr>)
                 else Inl (OutOfRange ''feature_names_.erase''))
              else Inr (name2idx, L\<lparr>label_idx := label, feature_names := names\<rparr>)))"

text \<open>
  Lines 58-85: every token of \<open>ignore_column\<close> is resolved (by name when the whole
  string carries the prefix, as a number otherwise), shifted past the label and inserted.
\<close>

definition resolve_ignore_token ::
  "('bm, 'r) collaborators \<Rightarrow> bool \<Rightarrow> (string \<rightharpoonup> int) \<Rightarrow> string \<Rightarrow> error + int" where
  "resolve_ignore_token ext by_name name2idx token =
     (if by_name then
        (case name2idx token of
           Some idx \<Rightarrow> Inr idx
         | None \<Rightarrow> Inl (Fatal (''Could not find ignore column '' @ token)))
      else
        (case AtoiAndCheck ext token of
           Some idx \<Rightarrow> Inr idx
         | None \<Rightarrow> Inl (Fatal ''ignore_column is not a number'')))"

definition ignore_token ::
  "('bm, 'r) collaborators \<Rightarrow> bool \<Rightarrow> (string \<rightharpoonup> int) \<Rightarrow> string \<Rightarrow> 'r DatasetLoader
     \<Rightarrow> error + 'r DatasetLoader" where
  "ignore_token ext by_name name2idx token L =
     bind_err (resolve_ignore_token ext by_name name2idx token)
       (\<lambda>tmp. Inr (L\<lparr>ignore_features := insert (skip_label (label_idx L) tmp) (ignore_features L)\<rparr>))"

definition ignore_tokens :: "('bm, 'r) collaborators \<Rightarrow> string \<Rightarrow> bool \<times> string list" where
  "ignore_tokens ext column =
     (if StartsWith column name_prefix
      then (True, Split ext (drop (length name_prefix) column) '','')
      else (False, Split ext column '',''))"

definition load_ignore ::
  "('bm, 'r) collaborators \<Rightarrow> (string \<rightharpoonup> int) \<Rightarrow> 'r DatasetLoader \<Rightarrow> error + 'r DatasetLoader" where
  "load_ignore ext name2idx L =
     (if ignore_column (io_config L) \<noteq> [] then
        (case ignore_tokens ext (ignore_column (io_config L)) of
           (by_name, tokens) \<Rightarrow> fold_err (ignore_token ext by_name name2idx) tokens L)
      else Inr L)"

text \<open>Lines 88-110 and 112-134: the weight and the group column.\<close>

definition load_weight ::
  "('bm, 'r) collaborators \<Rightarrow> (string \<rightharpoonup> int) \<Rightarrow> 'r DatasetLoader \<Rightarrow> error + 'r DatasetLoader" where
  "load_weight ext name2idx L =
     (if weight_column (io_config L) \<noteq> [] then
        bind_err
          (resolve_column ext name2idx (weight_column (io_config L))
             ''Could not find weight column '' ''weight_column is not a number'')
          (\<lambda>idx. let w = skip_label (label_idx L) idx
                 in Inr (L\<lparr>weight_idx := w, ignore_features := insert w (ignore_features L)\<rparr>))
      else Inr L)"

definition load_group ::
  "('bm, 'r) collaborators \<Rightarrow> (string \<rightharpoonup> int) \<Rightarrow> 'r DatasetLoader \<Rightarrow> error + 'r DatasetLoader" where
  "load_group ext name2idx L =
     (if group_column (io_config L) \<noteq> [] then
        bind_err
          (resolve_column ext name2idx (group_column (io_config L))
             ''Could not find group/query column '' ''group_column is not a number'')
          (\<lambda>idx. let g = skip_label (label_idx L) idx
                 in Inr (L\<lparr>group_idx := g, ignore_features := insert g (ignore_features L)\<rparr>))
      else Inr L)"

definition SetHeader ::
  "('bm, 'r) collaborators \<Rightarrow> string \<Rightarrow> 'r DatasetLoader \<Rightarrow> error + 'r DatasetLoader" where
  "SetHeader ext first L =
     bind_err (load_label ext first L)
       (\<lambda>(name2idx, L1).
          bind_err (load_ignore ext name2idx L1)
            (\<lambda>L2. bind_err (load_weight ext name2idx L2) (load_group ext name2idx)))"

subsection \<open>Partitioning rows across machines\<close>

text \<open>
  The closures passed to the reader carry mutable state: the generator \<open>random_\<close>
  and, for query granularity, \<open>qid\<close> and \<open>is_query_used\<close>. Each returns the
  keep/drop decision for one line index together with the new state.
\<close>

record 'r filter_state =
  rng :: 'r
  qid :: int
  is_query_used :: bool

definition start_filter :: "'r \<Rightarrow> 'r filter_state" where
  "start_filter r = \<lparr>rng = r, qid = - 1, is_query_used = False\<rparr>"

text \<open>Lines 481-487 (and 347-351, 539-546): one draw per record.\<close>

definition record_filter ::
  "('bm, 'r) collaborators \<Rightarrow> int \<Rightarrow> int \<Rightarrow> nat \<Rightarrow> 'r filter_state \<Rightarrow> error + (bool \<times> 'r filter_state)" where
  "record_filter ext rank num_machines line_idx st =
     (case NextInt ext (rng st) 0 num_machines of
        (v, r) \<Rightarrow> Inr (v = rank, st\<lparr>rng := r\<rparr>))"

text \<open>
  Lines 494-508 (and 357-371, 553-568): the query-granular predicate. The fatal check
  comes first; then \<open>query_boundaries[qid + 1]\<close> is read, out of range when the array
  is shorter. The text of the fatal message differs between the three copies.
\<close>

definition exceeds_msg :: string where
  "exceeds_msg = ''Current query exceeds the range of the query file, please ensure the query file is correct''"

definition exceeds_msg_sampling :: string where
  "exceeds_msg_sampling = ''Query id exceeds the range of the query file, please ensure the query file is correct''"

definition query_filter ::
  "('bm, 'r) collaborators \<Rightarrow> string \<Rightarrow> int \<Rightarrow> int \<Rightarrow> int list \<Rightarrow> int \<Rightarrow> nat
     \<Rightarrow> 'r filter_state \<Rightarrow> error + (bool \<times> 'r filter_state)" where
  "query_filter ext msg rank num_machines boundaries n_queries line_idx st =
     (if qid st \<ge> n_queries then Inl (Fatal msg)
      else if nat (qid st + 1) \<ge> length boundaries then Inl (OutOfRange ''query_boundaries'')
      else if int line_idx \<ge> boundaries ! nat (qid st + 1) then
        (case NextInt ext (rng st) 0 num_machines of
           (v, r) \<Rightarrow>
             Inr (v = rank, st\<lparr>rng := r, qid := qid st + 1, is_query_used := (v = rank)\<rparr>))
      else Inr (is_query_used st, st))"

text \<open>
  The loop of lines 347-351 and 357-372, which is also the contract of
  \<open>TextReader::ReadAndFilterLines\<close>: the predicate is called with every line index in
  ascending order and the kept indices are appended to \<open>used_data_indices\<close>.
\<close>

fun filter_rows ::
  "(nat \<Rightarrow> 's \<Rightarrow> error + (bool \<times> 's)) \<Rightarrow> nat list \<Rightarrow> 's \<Rightarrow> nat list \<Rightarrow> error + (nat list \<times> 's)" where
  "filter_rows pred [] st used = Inr (used, st)"
| "filter_rows pred (i # rest) st used =
     (case pred i st of
        Inl e \<Rightarrow> Inl e
      | Inr (keep, st') \<Rightarrow> filter_rows pred rest st' (if keep then used @ [i] else used))"

definition partition_rows ::
  "('bm, 'r) collaborators \<Rightarrow> int \<Rightarrow> int \<Rightarrow> int list option \<Rightarrow> int \<Rightarrow> nat \<Rightarrow> 'r
     \<Rightarrow> error + (nat list \<times> 'r)" where
  "partition_rows ext rank num_machines boundaries n_queries n r =
     bind_err
       (case boundaries of
          None \<Rightarrow> filter_rows (record_filter ext rank num_machines) [0..<n] (start_filter r) []
        | Some qb \<Rightarrow>
            filter_rows (query_filter ext exceeds_msg rank num_machines qb n_queries) [0..<n]
              (start_filter r) [])
       (\<lambda>(used, st). Inr (used, rng st))"

subsection \<open>Reading and sampling the text file\<close>

text \<open>
  Lines 467-512. The result is the kept lines, \<open>num_global_data\<close>,
  \<open>used_data_indices\<close> and the loader with the advanced generator. The reader returns
  the number of lines of the file as a \<open>data_size_t\<close>.
\<close>

definition LoadTextDataToMemory ::
  "('bm, 'r) collaborators \<Rightarrow> 'bm data_file \<Rightarrow> int \<Rightarrow> int \<Rightarrow> 'r DatasetLoader
     \<Rightarrow> error + (string list \<times> int \<times> nat list \<times> 'r DatasetLoader)" where
  "LoadTextDataToMemory ext file rank num_machines L =
     (let lines = data_lines file in
      if num_machines = 1 \<or> is_pre_partition (io_config L) then
        Inr (lines, static_cast_int (length lines), [], L)
      else
        bind_err
          (partition_rows ext rank num_machines (query_boundaries file) (num_queries file)
             (length lines) (random_rng L))
          (\<lambda>(used, r).
             Inr (map (\<lambda>i. lines ! i) used, static_cast_int (length lines), used,
                  L\<lparr>random_rng := r\<rparr>)))"

text \<open>Lines 514-526. An index of \<open>Random::Sample\<close> outside the data is an invalid read.\<close>

definition SampleTextDataFromMemory ::
  "('bm, 'r) collaborators \<Rightarrow> string list \<Rightarrow> 'r DatasetLoader \<Rightarrow> error + (string list \<times> 'r DatasetLoader)" where
  "SampleTextDataFromMemory ext data L =
     (let cnt = bin_construct_sample_cnt (io_config L);
          sample_cnt = (if cnt < 0 \<or> nat cnt > length data
                        then static_cast_int (length data) else cnt)
      in case Sample ext (random_rng L) (static_cast_int (length data)) sample_cnt of
           (sample_indices, r) \<Rightarrow>
             if list_all (\<lambda>idx. 0 \<le> idx \<and> idx < int (length data)) sample_indices
             then Inr (map (\<lambda>idx. data ! nat idx) sample_indices, L\<lparr>random_rng := r\<rparr>)
             else Inl (OutOfRange ''data[idx]''))"

text \<open>
  \<open>TextReader::SampleFromFile\<close> and \<open>TextReader::SampleAndFilterFromFile\<close> are
  outside this file.
\<close>

fun SampleAndFilterFromFile ::
  "('bm, 'r) collaborators \<Rightarrow> (nat \<Rightarrow> 'r filter_state \<Rightarrow> error + (bool \<times> 'r filter_state)) \<Rightarrow> nat
     \<Rightarrow> (nat \<times> string) list \<Rightarrow> 'r filter_state \<Rightarrow> nat list \<Rightarrow> string list
     \<Rightarrow> error + (nat list \<times> string list \<times> 'r filter_state)" where
  \<comment> \<open>Modelled from the spec: "reservoir sample restricted to predicate-accepted lines";
     the predicate is called with every line index, kept indices are appended, and a kept
     line enters the sample while it has room and afterwards replaces a drawn slot.\<close>
  "SampleAndFilterFromFile ext pred k [] st used out = Inr (used, out, st)"
| "SampleAndFilterFromFile ext pred k ((i, line) # rest) st used out =
     (case pred i st of
        Inl e \<Rightarrow> Inl e
      | Inr (keep, st') \<Rightarrow>
          if \<not> keep then SampleAndFilterFromFile ext pred k rest st' used out
          else if length out < k then
            SampleAndFilterFromFile ext pred k rest st' (used @ [i]) (out @ [line])
          else
            (case NextInt ext (rng st') 0 (int (length used) + 1) of
               (idx, r) \<Rightarrow>
                 SampleAndFilterFromFile ext pred k rest (st'\<lparr>rng := r\<rparr>) (used @ [i])
                   (if 0 \<le> idx \<and> nat idx < k then out[nat idx := line] else out)))"

definition keep_all :: "nat \<Rightarrow> 'r filter_state \<Rightarrow> error + (bool \<times> 'r filter_state)" where
  "keep_all line_idx st = Inr (True, st)"

text \<open>
  Lines 528-572. Without partitioning \<open>SampleFromFile\<close> leaves
  \<open>used_data_indices\<close> untouched (empty).
\<close>

definition SampleTextDataFromFile ::
  "('bm, 'r) collaborators \<Rightarrow> 'bm data_file \<Rightarrow> int \<Rightarrow> int \<Rightarrow> 'r DatasetLoader
     \<Rightarrow> error + (string list \<times> int \<times> nat list \<times> 'r DatasetLoader)" where
  "SampleTextDataFromFile ext file rank num_machines L =
     (let lines = data_lines file;
          sample_cnt = nat (bin_construct_sample_cnt (io_config L));
          numbered = zip [0..<length lines] lines;
          st0 = start_filter (random_rng L)
      in if num_machines = 1 \<or> is_pre_partition (io_config L) then
           bind_err (SampleAndFilterFromFile ext keep_all sample_cnt numbered st0 [] [])
             (\<lambda>(used, out_data, st).
                Inr (out_data, static_cast_int (length lines), [], L\<lparr>random_rng := rng st\<rparr>))
         else
           bind_err
             (case query_boundaries file of
                None \<Rightarrow>
                  SampleAndFilterFromFile ext (record_filter ext rank num_machines)
                    sample_cnt numbered st0 [] []
              | Some qb \<Rightarrow>
                  SampleAndFilterFromFile ext
                    (query_filter ext exceeds_msg_sampling rank num_machines qb (num_queries file))
                    sample_cnt numbered st0 [] [])
             (\<lambda>(used, out_data, st).
                Inr (out_data, static_cast_int (length lines), used,
                     L\<lparr>random_rng := rng st\<rparr>)))"

subsection \<open>Feature shards of the distributed bin construction\<close>

text \<open>
  Lines 656-667 of \<open>ConstructBinMappersFromTextData\<close>. The vectors \<open>start\<close> and
  \<open>len\<close> have \<open>num_machines\<close> zero-initialised entries; a negative count cannot
  be allocated, and with no machine line 659 divides by zero. The sum of line 659 is
  formed in 32 bits. The loop body writes \<open>len[i]\<close> and \<open>start[i + 1]\<close>.
\<close>

definition shard_step :: "int \<Rightarrow> int \<Rightarrow> int" where
  "shard_step total_num_feature num_machines =
     (let step = int32 (total_num_feature + num_machines - 1) sdiv num_machines
      in if step < 1 then 1 else step)"

definition shard_body :: "int \<Rightarrow> int \<Rightarrow> nat \<Rightarrow> int list \<times> int list \<Rightarrow> int list \<times> int list" where
  "shard_body step total_num_feature i sl =
     (case sl of (start, len) \<Rightarrow>
        let len' = len[i := min step (total_num_feature - start ! i)]
        in (start[Suc i := start ! i + len' ! i], len'))"

definition feature_shards :: "int \<Rightarrow> int \<Rightarrow> error + (int list \<times> int list)" where
  "feature_shards total_num_feature num_machines =
     (if num_machines < 0 then Inl BadAlloc
      else if num_machines = 0 then Inl DivisionByZero
      else
        let m = nat num_machines;
            step = shard_step total_num_feature num_machines;
            start0 = (replicate m 0)[0 := 0];
            len0 = replicate m 0;
            sl = fold (shard_body step total_num_feature) [0..<m - 1] (start0, len0)
        in Inr (fst sl, (snd sl)[m - 1 := total_num_feature - fst sl ! (m - 1)]))"

subsection \<open>Constructing the bin mappers and assembling the features\<close>

text \<open>
  Lines 584-595: one parsed pair; the threshold is \<open>1e-15\<close>. A negative column index
  becomes a huge \<open>size_t\<close>: the vector cannot grow that far, except that for the index
  \<open>-1\<close> on an empty vector \<open>need_size\<close> wraps to 0 and the subscript is invalid.
\<close>

definition push_sample :: "32 word \<times> real \<Rightarrow> real list list \<Rightarrow> error + real list list" where
  "push_sample inner_data sample_values =
     (if \<bar>snd inner_data\<bar> > 1 / 10 ^ 15 then
        (let c = sint (fst inner_data) in
         if 0 \<le> c then
           (let grown = (if nat c \<ge> length sample_values
                         then sample_values @ replicate (nat c - length sample_values + 1) []
                         else sample_values)
            in Inr (grown[nat c := grown ! nat c @ [snd inner_data]]))
         else if c = - 1 \<and> sample_values = [] then
           Inl (OutOfRange ''sample_values[inner_data.first]'')
         else Inl BadAlloc)
      else Inr sample_values)"

definition collect_sample_values :: "parser \<Rightarrow> string list \<Rightarrow> error + real list list" where
  "collect_sample_values parse sample_data =
     fold_err (\<lambda>line. fold_err push_sample (fst (parse line))) sample_data []"

fun string_of_nat :: "nat \<Rightarrow> string" where
  "string_of_nat n =
     (if n < 10 then [char_of (48 + n)]
      else string_of_nat (n div 10) @ [char_of (48 + n mod 10)])"

text \<open>Lines 610-616 and 442-448: placeholder names when there is no header.\<close>

definition fill_feature_names :: "nat \<Rightarrow> string list \<Rightarrow> string list" where
  "fill_feature_names n names =
     (if names = [] then map (\<lambda>i. ''Column_'' @ string_of_nat i) [0..<n] else names)"

text \<open>
  One iteration of an assembly loop (lines 632-649, 690-708, 424-439). \<open>mapper\<close> is
  \<open>None\<close> for a null slot or an ignored column. The first message function is what
  the loop does with such a column: a warning that reads \<open>feature_names_[i]\<close> in the
  text paths, the dereference of a null pointer in \<open>CostructFromSampleData\<close>; the
  second builds the warning for a trivial bin mapper.
\<close>

definition assemble_column ::
  "('bm, 'r) collaborators \<Rightarrow> IOConfig \<Rightarrow> (nat \<Rightarrow> error + string) \<Rightarrow> (nat \<Rightarrow> error + string)
     \<Rightarrow> (nat \<Rightarrow> 'bm option) \<Rightarrow> nat \<Rightarrow> 'bm Dataset \<times> string list
     \<Rightarrow> error + ('bm Dataset \<times> string list)" where
  "assemble_column ext cfg ignored_msg trivial_msg mapper i dw =
     (case dw of (dataset, ws) \<Rightarrow>
        (case mapper i of
           None \<Rightarrow> bind_err (ignored_msg i) (\<lambda>m. Inr (dataset, ws @ [m]))
         | Some bm \<Rightarrow>
             if is_trival ext bm then
               bind_err (trivial_msg i) (\<lambda>m. Inr (dataset, ws @ [m]))
             else
               Inr (dataset\<lparr>
                      used_feature_map :=
                        (used_feature_map dataset)
                          [i := static_cast_int (length (features dataset))],
                      features := features dataset @
                        [\<lparr>feature_index = static_cast_int i, bin_mapper = bm,
                          feature_num_data = num_data dataset,
                          feature_is_sparse = is_enable_sparse cfg\<rparr>]\<rparr>, ws)))"

definition feature_name_msg :: "string list \<Rightarrow> string \<Rightarrow> string \<Rightarrow> nat \<Rightarrow> error + string" where
  "feature_name_msg names pre post i =
     (if i < length names then Inr (pre @ names ! i @ post)
      else Inl (OutOfRange ''feature_names_[i]''))"

definition assemble ::
  "('bm, 'r) collaborators \<Rightarrow> IOConfig \<Rightarrow> (nat \<Rightarrow> error + string) \<Rightarrow> (nat \<Rightarrow> error + string)
     \<Rightarrow> (nat \<Rightarrow> 'bm option) \<Rightarrow> nat \<Rightarrow> 'bm Dataset \<times> string list
     \<Rightarrow> error + ('bm Dataset \<times> string list)" where
  "assemble ext cfg ignored_msg trivial_msg mapper n dw =
     fold_err (assemble_column ext cfg ignored_msg trivial_msg mapper) [0..<n] dw"

text \<open>
  The bin mapper of column \<open>i\<close> in each path. Locally (lines 620-630) the loop runs
  over \<open>int i < static_cast<int>(sample_values.size())\<close>; an ignored column gets a
  null slot, and a slot the loop does not reach stays null. In the distributed path
  (lines 677-697) this machine finds the bins of its own shard and \<open>Allgather\<close>
  delivers the others; \<open>CopyTo\<close> followed by \<open>CopyFrom\<close> returns the mapper that was
  written.
\<close>

definition local_bin_mapper ::
  "('bm, 'r) collaborators \<Rightarrow> 'r DatasetLoader \<Rightarrow> real list list \<Rightarrow> nat \<Rightarrow> nat \<Rightarrow> 'bm option" where
  "local_bin_mapper ext L sample_values sample_size i =
     (if static_cast_int (length sample_values) \<le> int i then None
      else if int i \<in> ignore_features L then None
      else Some (FindBin ext (sample_values ! i) sample_size (max_bin (io_config L))))"

definition gathered_bin_mapper ::
  "('bm, 'r) collaborators \<Rightarrow> 'r DatasetLoader \<Rightarrow> real list list \<Rightarrow> nat \<Rightarrow> int \<Rightarrow> int \<Rightarrow> nat
     \<Rightarrow> 'bm option" where
  "gathered_bin_mapper ext L sample_values sample_size start_rank len_rank i =
     (if int i \<in> ignore_features L then None
      else if start_rank \<le> int i \<and> int i < start_rank + len_rank
        then Some (FindBin ext (sample_values ! i) sample_size (max_bin (io_config L)))
        else Some (remote_bin_mapper ext i))"

definition find_bin_mappers ::
  "('bm, 'r) collaborators \<Rightarrow> int \<Rightarrow> int \<Rightarrow> 'r DatasetLoader \<Rightarrow> real list list \<Rightarrow> nat
     \<Rightarrow> error + (nat \<Rightarrow> 'bm option)" where
  "find_bin_mappers ext rank num_machines L sample_values sample_size =
     (if num_machines = 1 then Inr (local_bin_mapper ext L sample_values sample_size)
      else
        bind_err (feature_shards (static_cast_int (length sample_values)) num_machines)
          (\<lambda>(start, len).
             if rank < 0 \<or> rank \<ge> num_machines then Inl (OutOfRange ''len[rank]'')
             else Inr (gathered_bin_mapper ext L sample_values sample_size
                         (start ! nat rank) (len ! nat rank))))"

text \<open>
  Lines 574-712. The sizes \<open>type_size\<close> and \<open>buffer_size\<close> only dimension the
  exchange buffers and are left out. The local assembly loop runs over
  \<open>size_t i < sample_values.size()\<close>, the distributed one over
  \<open>int i < total_num_feature\<close>.
\<close>

definition ConstructBinMappersFromTextData ::
  "('bm, 'r) collaborators \<Rightarrow> int \<Rightarrow> int \<Rightarrow> string list \<Rightarrow> parser \<Rightarrow> 'r DatasetLoader
     \<Rightarrow> 'bm Dataset \<Rightarrow> error + ('bm Dataset \<times> 'r DatasetLoader)" where
  "ConstructBinMappersFromTextData ext rank num_machines sample_data parse L dataset =
     bind_err (collect_sample_values parse sample_data)
       (\<lambda>sample_values.
          let n = length sample_values;
              d1 = dataset\<lparr>features := [], used_feature_map := replicate n (- 1),
                     num_total_features := static_cast_int n\<rparr>
          in if \<not> (label_idx L \<ge> 0 \<and> label_idx L \<le> num_total_features d1) then
               Inl (CheckFailed ''label_idx_ >= 0 && label_idx_ <= dataset->num_total_features_'')
             else if \<not> (weight_idx L < 0 \<or> weight_idx L < num_total_features d1) then
               Inl (CheckFailed ''weight_idx_ < 0 || weight_idx_ < dataset->num_total_features_'')
             else if \<not> (group_idx L < 0 \<or> group_idx L < num_total_features d1) then
               Inl (CheckFailed ''group_idx_ < 0 || group_idx_ < dataset->num_total_features_'')
             else
               let names = fill_feature_names (nat (num_total_features d1)) (feature_names L);
                   d2 = d1\<lparr>dataset_feature_names := names\<rparr>
               in bind_err
                    (find_bin_mappers ext rank num_machines L sample_values (length sample_data))
                    (\<lambda>bin_mappers.
                       bind_err
                         (assemble ext (io_config L)
                            (feature_name_msg names ''Ignoring feature '' [])
                            (feature_name_msg names ''Ignoring feature '' '', only has one value'')
                            bin_mappers
                            (if num_machines = 1 then n else nat (num_total_features d1))
                            (d2, warnings L))
                         (\<lambda>(d3, ws).
                            Inr (d3\<lparr>num_features := static_cast_int (length (features d3))\<rparr>,
                                 L\<lparr>feature_names := names, warnings := ws\<rparr>))))"

text \<open>
  Lines 408-453. The first loop runs over
  \<open>int i < static_cast<int>(sample_values.size())\<close> and gives every column it reaches a
  bin mapper; none is ignored. The assembly loop runs over all slots and dereferences
  each.
\<close>

definition column_msg :: "nat \<Rightarrow> error + string" where
  "column_msg i = Inr (''Ignoring Column_'' @ string_of_nat i @ '' , only has one value'')"

definition null_bin_mapper :: "nat \<Rightarrow> error + string" where
  "null_bin_mapper i = Inl (OutOfRange ''bin_mappers[i]->is_trival()'')"

definition sample_bin_mapper ::
  "('bm, 'r) collaborators \<Rightarrow> 'r DatasetLoader \<Rightarrow> real list list \<Rightarrow> nat \<Rightarrow> nat \<Rightarrow> 'bm option" where
  "sample_bin_mapper ext L sample_values total_sample_size i =
     (if static_cast_int (length sample_values) \<le> int i then None
      else Some (FindBin ext (sample_values ! i) total_sample_size (max_bin (io_config L))))"

definition CostructFromSampleData ::
  "('bm, 'r) collaborators \<Rightarrow> real list list \<Rightarrow> nat \<Rightarrow> int \<Rightarrow> 'r DatasetLoader
     \<Rightarrow> error + ('bm Dataset \<times> 'r DatasetLoader)" where
  "CostructFromSampleData ext sample_values total_sample_size n_data L =
     (let n = length sample_values;
          bin_mappers = sample_bin_mapper ext L sample_values total_sample_size;
          d1 = new_Dataset\<lparr>dataset_num_class := num_class (io_config L), features := [],
                 num_data := n_data, used_feature_map := replicate n (- 1),
                 num_total_features := static_cast_int n\<rparr>
      in bind_err
           (assemble ext (io_config L) null_bin_mapper column_msg bin_mappers n
              (d1, warnings L))
           (\<lambda>(d2, ws).
              let names = fill_feature_names (nat (num_total_features d2)) (feature_names L);
                  d3 = d2\<lparr>dataset_feature_names := names,
                         num_features := static_cast_int (length (features d2))\<rparr>
              in Inr (d3\<lparr>metadata := metadata d3 @
                          [Init_data (num_data d3) (dataset_num_class d3) NO_SPECIFIC NO_SPECIFIC]\<rparr>,
                      L\<lparr>feature_names := names, warnings := ws\<rparr>)))"

subsection \<open>The binary cache and LoadFromFile\<close>

text \<open>
  Lines 247-406, from the parsed content of the file. The constructor that builds a
  \<open>Feature\<close> from its blob is outside this file; a blob is the feature it yields.
\<close>

definition LoadFromBinFile ::
  "('bm, 'r) collaborators \<Rightarrow> 'bm bin_file \<Rightarrow> int \<Rightarrow> int \<Rightarrow> 'r DatasetLoader
     \<Rightarrow> error + ('bm Dataset \<times> 'r DatasetLoader)" where
  "LoadFromBinFile ext bin rank num_machines L =
     (case header_defect bin of
        Some msg \<Rightarrow> Inl (Fatal msg)
      | None \<Rightarrow>
          let d1 = new_Dataset\<lparr>num_data := bin_num_data bin,
                     dataset_num_class := bin_num_class bin,
                     num_features := bin_num_features bin,
                     num_total_features := bin_num_total_features bin,
                     used_feature_map := bin_used_feature_map bin,
                     dataset_feature_names := bin_feature_names bin,
                     metadata := [LoadFromMemory]\<rparr>
          in bind_err
               (if num_machines > 1 \<and> \<not> is_pre_partition (io_config L) then
                  bind_err
                    (partition_rows ext rank num_machines (bin_query_boundaries bin)
                       (bin_num_queries bin) (nat (num_data d1)) (random_rng L))
                    (\<lambda>(used, r).
                       Inr (used, d1\<lparr>num_data := static_cast_int (length used)\<rparr>,
                            L\<lparr>random_rng := r\<rparr>))
                else Inr ([], d1, L))
               (\<lambda>(used_data_indices, d2, L1).
                  let d3 = d2\<lparr>metadata := metadata d2 @ [PartitionLabel used_data_indices]\<rparr>
                  in if int (length (bin_features bin)) < num_features d3 then
                       Inl (Fatal ''Binary file error: feature has the wrong size'')
                     else
                       Inr (d3\<lparr>features := take (nat (num_features d3)) (bin_features bin),
                                is_loading_from_binfile := True\<rparr>, L1)))"

text \<open>Lines 458-465.\<close>

definition CheckDataset :: "'bm Dataset \<Rightarrow> error + unit" where
  "CheckDataset dataset =
     (if num_data dataset \<le> 0 then Inl (Fatal ''Data file is empty'')
      else if length (features dataset) \<le> 0 then Inl (Fatal ''No usable features in data file'')
      else Inr ())"

text \<open>
  Lines 733-746 (and 769-782, 819-832): what the extraction does with one parsed pair of
  a row. The values it stores (rows pushed into a \<open>Feature\<close>, labels, weights and
  query ids converted to \<open>float\<close> or \<open>data_size_t\<close> and handed to \<open>Metadata\<close>,
  initial scores of \<open>predict_fun_\<close>) live outside this file and are not part of the
  model; what remains is which subscripts it evaluates.
\<close>

definition push_pair :: "'bm Dataset \<Rightarrow> 32 word \<times> real \<Rightarrow> unit \<Rightarrow> error + unit" where
  "push_pair dataset inner_data u =
     (let c = sint (fst inner_data) in
      if c \<ge> num_total_features dataset then Inr ()
      else if c < 0 \<or> nat c \<ge> length (used_feature_map dataset) then
        Inl (OutOfRange ''used_feature_map_[inner_data.first]'')
      else
        (let feature_idx = used_feature_map dataset ! nat c in
         if feature_idx \<ge> 0 \<and> nat feature_idx \<ge> length (features dataset) then
           Inl (OutOfRange ''features_[feature_idx]'')
         else Inr ()))"

definition ExtractFeatures :: "parser \<Rightarrow> string list \<Rightarrow> 'bm Dataset \<Rightarrow> error + 'bm Dataset" where
  "ExtractFeatures parse rows dataset =
     bind_err (fold_err (\<lambda>line. fold_err (push_pair dataset) (fst (parse line))) rows ())
       (\<lambda>u. Inr dataset)"

text \<open>Lines 138-144: the guard on a query id column in parallel training.\<close>

definition query_id_msg :: string where
  "query_id_msg = ''Using a query id without pre-partitioning the data file is not supported for parallel training. Please use an additional query file or pre-partition the data''"

definition check_query_id :: "int \<Rightarrow> 'r DatasetLoader \<Rightarrow> error + unit" where
  "check_query_id num_machines L =
     (if num_machines > 1 \<and> \<not> is_pre_partition (io_config L) then
        (if group_idx L > 0 then Inl (Fatal query_id_msg) else Inr ())
      else Inr ())"

text \<open>
  Lines 137-197. \<open>num_global_data\<close> and \<open>used_data_indices\<close> are declared before the
  branch and written only by the text paths. In memory the extraction reads the rows
  \<open>i < num_data_\<close> of \<open>text_data\<close>; from the file it reads the rows of
  \<open>used_data_indices\<close>, or all rows when that is empty.
\<close>

definition LoadFromFile ::
  "('bm, 'r) collaborators \<Rightarrow> 'bm data_file \<Rightarrow> int \<Rightarrow> int \<Rightarrow> 'r DatasetLoader
     \<Rightarrow> error + ('bm Dataset \<times> 'r DatasetLoader)" where
  "LoadFromFile ext file rank num_machines L =
     bind_err (check_query_id num_machines L)
       (\<lambda>u.
        (case format_parser file of
           None \<Rightarrow> Inl (Fatal ''Could not recognize data format'')
         | Some create \<Rightarrow>
             let parse = create (label_idx L);
                 cfg = io_config L;
                 num_global_data = 0;
                 used_data_indices = [];
                 d0 = new_Dataset\<lparr>data_filename := filename file,
                        dataset_num_class := num_class cfg,
                        metadata := [Init_from_file (filename file) (num_class cfg)]\<rparr>
             in bind_err
                  (case bin_cache file of
                     None \<Rightarrow>
                       if \<not> use_two_round_loading cfg then
                         bind_err (LoadTextDataToMemory ext file rank num_machines L)
                           (\<lambda>(text_data, global, used, L1).
                              bind_err (SampleTextDataFromMemory ext text_data L1)
                                (\<lambda>(sample_data, L2).
                                   bind_err
                                     (ConstructBinMappersFromTextData ext rank num_machines
                                        sample_data parse L2
                                        (d0\<lparr>num_data := static_cast_int (length text_data)\<rparr>))
                                     (\<lambda>(d1, L3).
                                        bind_err
                                          (ExtractFeatures parse
                                             (take (nat (num_data d1)) text_data)
                                             (d1\<lparr>metadata := metadata d1 @
                                                   [Init_data (num_data d1) (num_class cfg)
                                                      (weight_idx L3) (group_idx L3)]\<rparr>))
                                          (\<lambda>d2. Inr (d2, L3, global, used)))))
                       else
                         bind_err (SampleTextDataFromFile ext file rank num_machines L)
                           (\<lambda>(sample_data, global, used, L1).
                              bind_err
                                (ConstructBinMappersFromTextData ext rank num_machines
                                   sample_data parse L1
                                   (d0\<lparr>num_data :=
                                         (if length used > 0 then static_cast_int (length used)
                                          else global)\<rparr>))
                                (\<lambda>(d1, L2).
                                   bind_err
                                     (ExtractFeatures parse
                                        (if length used > 0
                                         then map (\<lambda>i. data_lines file ! i) used
                                         else data_lines file)
                                        (d1\<lparr>metadata := metadata d1 @
                                              [Init_data (num_data d1) (dataset_num_class d1)
                                                 (weight_idx L2) (group_idx L2)]\<rparr>))
                                     (\<lambda>d2. Inr (d2, L2, global, used))))
                   | Some bin \<Rightarrow>
                       bind_err (LoadFromBinFile ext bin rank num_machines L)
                         (\<lambda>(d1, L1). Inr (d1, L1, num_global_data, used_data_indices)))
                  (\<lambda>(d, L', global, used).
                     let d' = d\<lparr>metadata := metadata d @ [CheckOrPartition global used]\<rparr>
                     in bind_err (CheckDataset d') (\<lambda>u. Inr (d', L')))))"

subsection \<open>Example collaborators\<close>

text \<open>
  Concrete collaborators on which the model is evaluated: a splitter on delimiter
  characters, a parser of unsigned decimals, a line format with one digit per column, a
  bin mapper that counts the distinct sampled values (plus the zero bin when some sampled
  row has no value), a linear congruential generator, and a sampler that takes the first
  rows.
\<close>

fun split_on :: "string \<Rightarrow> string \<Rightarrow> string \<Rightarrow> string list" where
  "split_on delimiters [] cur = [cur]"
| "split_on delimiters (c # cs) cur =
     (if c \<in> set delimiters then cur # split_on delimiters cs []
      else split_on delimiters cs (cur @ [c]))"

definition example_Split :: "string \<Rightarrow> string \<Rightarrow> string list" where
  "example_Split s delimiters = split_on delimiters s []"

fun digits_value :: "string \<Rightarrow> nat \<Rightarrow> nat option" where
  "digits_value [] acc = Some acc"
| "digits_value (c # cs) acc =
     (if 48 \<le> (of_char c :: nat) \<and> (of_char c :: nat) \<le> 57
      then digits_value cs (10 * acc + (of_char c - 48)) else None)"

definition example_AtoiAndCheck :: "string \<Rightarrow> int option" where
  "example_AtoiAndCheck s = (if s = [] then None else map_option int (digits_value s 0))"

fun digit_pairs :: "int \<Rightarrow> int \<Rightarrow> string \<Rightarrow> (32 word \<times> real) list" where
  "digit_pairs label col [] = []"
| "digit_pairs label col (c # cs) =
     (if col = label then digit_pairs label (col + 1) cs
      else (word_of_int (skip_label label col), real (of_char c - 48))
             # digit_pairs label (col + 1) cs)"

definition example_parser :: "int \<Rightarrow> parser" where
  "example_parser label line =
     (digit_pairs label 0 line,
      if 0 \<le> label \<and> nat label < length line
      then real (of_char (line ! nat label) - 48) else 0)"

definition example_FindBin :: "real list \<Rightarrow> nat \<Rightarrow> int \<Rightarrow> nat" where
  "example_FindBin values sample_size bins =
     length (remdups values) + (if length values < sample_size then 1 else 0)"

definition example_is_trival :: "nat \<Rightarrow> bool" where
  "example_is_trival num_bin = (num_bin \<le> 1)"

definition example_NextInt :: "int \<Rightarrow> int \<Rightarrow> int \<Rightarrow> int \<times> int" where
  "example_NextInt x lower upper =
     (let y = (214013 * x + 2531011) mod 4294967296
      in (lower + ((y div 65536) mod 32768) mod (upper - lower), y))"

definition example_Sample :: "int \<Rightarrow> int \<Rightarrow> int \<Rightarrow> int list \<times> int" where
  "example_Sample x n k = (map int [0..<nat k], x)"

definition example_remote :: "nat \<Rightarrow> nat" where
  "example_remote i = 2"

definition example_ext :: "(nat, int) collaborators" where
  "example_ext =
     \<lparr>Split = example_Split, AtoiAndCheck = example_AtoiAndCheck, FindBin = example_FindBin,
      is_trival = example_is_trival, NextInt = example_NextInt, Sample = example_Sample,
      remote_bin_mapper = example_remote\<rparr>"

definition example_config :: IOConfig where
  "example_config =
     \<lparr>has_header = False, label_column = [], weight_column = [], group_column = [],
      ignore_column = [], max_bin = 16, bin_construct_sample_cnt = 100,
      use_two_round_loading = False, is_pre_partition = False, is_enable_sparse = True,
      num_class = 1, data_random_seed = 42\<rparr>"

definition example_file :: "string list \<Rightarrow> nat data_file" where
  "example_file lines =
     \<lparr>filename = ''train.txt'', first_line = [], data_lines = lines,
      format_parser = Some example_parser, query_boundaries = None, num_queries = 0,
      bin_cache = None\<rparr>"





text \<open>
  Rows without a header: the label, then two feature columns. In
  \<open>example_zero_lines\<close> the last column holds the value zero in every row.
\<close>

definition example_lines :: "string list" where
  "example_lines = [''120'', ''135'', ''147'']"

definition example_zero_lines :: "string list" where
  "example_zero_lines = [''510'', ''120'', ''230'']"



text \<open>
  A query id in the column after the label: rows of the form label, query id, feature;
  the first two rows belong to query 1 and the last two to query 2.
\<close>

definition example_query_config :: IOConfig where
  "example_query_config = example_config\<lparr>group_column := ''1''\<rparr>"

definition example_query_loader :: "int DatasetLoader" where
  "example_query_loader =
     (new_DatasetLoader example_query_config 42)\<lparr>group_idx := 0, ignore_features := {0}\<rparr>"

definition example_query_lines :: "string list" where
  "example_query_lines = [''013'', ''114'', ''025'', ''126'']"

text \<open>
  A side query file with the sizes 0 and 3: the first query is empty, the second holds
  the three rows of the file.
\<close>

definition example_empty_query_file :: "nat data_file" where
  "example_empty_query_file =
     (example_file example_lines)\<lparr>query_boundaries := Some [0, 0, 3], num_queries := 2\<rparr>"

text \<open>
  Two binary caches of four rows and one feature. The first holds the header of a
  dataset that the loader wrote; in the second the \<open>used_feature_map\<close> of the header
  points the first column to a sixth feature.
\<close>

definition example_bin :: "nat bin_file" where
  "example_bin =
     \<lparr>header_defect = None, bin_num_data = 4, bin_num_class = 1, bin_num_features = 1,
      bin_num_total_features = 2, bin_used_feature_map = [- 1, 0],
      bin_feature_names = [''Column_0'', ''Column_1''], bin_query_boundaries = None,
      bin_num_queries = 0,
      bin_features = [\<lparr>feature_index = 1, bin_mapper = 3, feature_num_data = 4,
                       feature_is_sparse = True\<rparr>]\<rparr>"

definition example_bad_bin :: "nat bin_file" where
  "example_bad_bin = example_bin\<lparr>bin_used_feature_map := [5, - 1]\<rparr>"

definition example_cached_file :: "nat bin_file \<Rightarrow> nat data_file" where
  "example_cached_file bin = (example_file example_query_lines)\<lparr>bin_cache := Some bin\<rparr>"

subsection \<open>Vocabulary of the properties\<close>

text \<open>
  A column is kept by an assembly loop when its slot holds a bin mapper that is not
  trivial; \<open>kept_Feature\<close> is the feature pushed for it and \<open>drop_msg\<close> the
  warning written for a column that is not kept.
\<close>

definition column_kept :: "('bm, 'r) collaborators \<Rightarrow> (nat \<Rightarrow> 'bm option) \<Rightarrow> nat \<Rightarrow> bool" where
  "column_kept ext mapper i = (case mapper i of None \<Rightarrow> False | Some bm \<Rightarrow> \<not> is_trival ext bm)"

definition kept_Feature ::
  "IOConfig \<Rightarrow> (nat \<Rightarrow> 'bm option) \<Rightarrow> int \<Rightarrow> nat \<Rightarrow> 'bm Feature" where
  "kept_Feature cfg mapper n_data i =
     \<lparr>feature_index = static_cast_int i, bin_mapper = the (mapper i), feature_num_data = n_data,
      feature_is_sparse = is_enable_sparse cfg\<rparr>"

definition drop_msg ::
  "(nat \<Rightarrow> error + string) \<Rightarrow> (nat \<Rightarrow> error + string) \<Rightarrow> (nat \<Rightarrow> 'bm option) \<Rightarrow> nat \<Rightarrow> error + string" where
  "drop_msg ignored_msg trivial_msg mapper i =
     (case mapper i of None \<Rightarrow> ignored_msg i | Some bm \<Rightarrow> trivial_msg i)"

text \<open>
  The invariant of \<open>used_feature_map\<close>: read in column order, its non-negative
  entries are \<open>0, 1, \<dots>, num_features - 1\<close>.
\<close>

definition used_feature_map_wf :: "int list \<Rightarrow> int \<Rightarrow> bool" where
  "used_feature_map_wf ufm nf = (filter (\<lambda>v. 0 \<le> v) ufm = map int [0..<nat nf])"



text \<open>The generator after \<open>k\<close> draws of \<open>NextInt(0, num_machines)\<close>, and the k-th draw.\<close>

definition rng_after :: "('bm, 'r) collaborators \<Rightarrow> int \<Rightarrow> nat \<Rightarrow> 'r \<Rightarrow> 'r" where
  "rng_after ext num_machines k r = ((\<lambda>x. snd (NextInt ext x 0 num_machines)) ^^ k) r"

definition draw :: "('bm, 'r) collaborators \<Rightarrow> int \<Rightarrow> 'r \<Rightarrow> nat \<Rightarrow> int" where
  "draw ext num_machines r k = fst (NextInt ext (rng_after ext num_machines k r) 0 num_machines)"

section \<open>Properties\<close>

subsection \<open>Error-propagating sequencing\<close>

lemma bind_err_Inr:
  "(bind_err r k = Inr b) = (\<exists>a. r = Inr a \<and> k a = Inr b)"
  by (cases r) (simp_all add: bind_err_def)

lemma fold_err_snoc:
  "fold_err f (xs @ [x]) s = bind_err (fold_err f xs s) (f x)"
  by (induction xs arbitrary: s) (auto simp: bind_err_def split: sum.splits)



subsection \<open>Feature shards\<close>

lemma sdiv_nonneg_pos: "0 \<le> a \<Longrightarrow> 0 < b \<Longrightarrow> a sdiv b = a div (b::int)"
  by (simp add: signed_divide_int_def sgn_if)

lemma ceil_div:
  assumes "0 < (b::int)"
  shows "\<lceil>real_of_int a / real_of_int b\<rceil> = (a + b - 1) div b"
proof -
  define q r where "q = a div b" and "r = a mod b"
  have a: "a = b * q + r" "0 \<le> r" "r < b"
    using assms by (simp_all add: q_def r_def)
  show ?thesis
  proof (cases "r = 0")
    case True
    have "(a + b - 1) div b = q"
      by (rule int_div_pos_eq[where r = "b - 1"]) (use a True assms in \<open>auto simp: algebra_simps\<close>)
    moreover have "real_of_int a / real_of_int b = real_of_int q"
      using a True assms by simp
    ultimately show ?thesis by simp
  next
    case False
    have d: "(a + b - 1) div b = q + 1"
      by (rule int_div_pos_eq[where r = "r - 1"]) (use a False in \<open>auto simp: algebra_simps\<close>)
    have lo: "q * b < a" and hi: "a \<le> (q + 1) * b"
      using a False by (auto simp: algebra_simps)
    have "\<lceil>real_of_int a / real_of_int b\<rceil> = q + 1"
    proof (rule ceiling_unique)
      have "real_of_int (q * b) < real_of_int a" using lo by (simp only: of_int_less_iff)
      then show "real_of_int (q + 1) - 1 < real_of_int a / real_of_int b"
        using assms by (simp add: pos_less_divide_eq)
      have "real_of_int a \<le> real_of_int ((q + 1) * b)" using hi by (simp only: of_int_le_iff)
      then show "real_of_int a / real_of_int b \<le> real_of_int (q + 1)"
        using assms by (simp add: pos_divide_le_eq)
    qed
    with d show ?thesis by simp
  qed
qed

lemma int32_id: "- 2147483648 \<le> x \<Longrightarrow> x \<le> 2147483647 \<Longrightarrow> int32 x = x"
  by (simp add: int32_def)

lemma static_cast_int_id: "n < 2147483648 \<Longrightarrow> static_cast_int n = int n"
  by (simp add: static_cast_int_def int32_def)

lemma shard_step_in_range:
  assumes "0 \<le> tot" "1 \<le> M" "tot + M - 1 \<le> 2147483647"
  shows "shard_step tot M = max 1 ((tot + M - 1) div M)"
proof -
  have "int32 (tot + M - 1) = tot + M - 1" using assms by (intro int32_id) simp_all
  then show ?thesis using assms unfolding shard_step_def
    by (simp add: sdiv_nonneg_pos Let_def max_def)
qed

lemma shard_step_ceiling:
  assumes "0 \<le> tot" "1 \<le> M" "tot + M - 1 \<le> 2147483647"
  shows "shard_step tot M = max 1 \<lceil>real_of_int tot / real_of_int M\<rceil>"
  using assms by (simp add: shard_step_in_range ceil_div)

lemma shard_step_covers:
  assumes "0 \<le> tot" "1 \<le> M" "tot + M - 1 \<le> 2147483647"
  shows "1 \<le> shard_step tot M" "tot \<le> M * shard_step tot M"
proof -
  let ?q = "(tot + M - 1) div M"
  have s: "shard_step tot M = max 1 ?q"
    using assms by (rule shard_step_in_range)
  show "1 \<le> shard_step tot M" by (simp add: s)
  have "tot + M - 1 = M * ?q + (tot + M - 1) mod M" by simp
  moreover have "(tot + M - 1) mod M < M" using assms by simp
  ultimately have "tot \<le> M * ?q" by linarith
  also have "\<dots> \<le> M * max 1 ?q" using assms by (simp add: mult_left_mono)
  finally show "tot \<le> M * shard_step tot M" by (simp add: s)
qed

lemma shard_fold_inv:
  assumes "0 \<le> tot" "1 \<le> step"
  shows "k < m \<Longrightarrow>
    (case fold (shard_body step tot) [0..<k] ((replicate m 0)[0 := 0], replicate m 0) of
       (s, l) \<Rightarrow> length s = m \<and> length l = m
          \<and> (\<forall>i\<le>k. s ! i = min (int i * step) tot)
          \<and> (\<forall>i<k. l ! i = min step (tot - s ! i)))"
proof (induction k)
  case 0
  then show ?case using assms by simp
next
  case (Suc k)
  obtain s l where sl: "fold (shard_body step tot) [0..<k] ((replicate m 0)[0 := 0], replicate m 0) = (s, l)"
    by force
  from Suc sl have ih: "length s = m" "length l = m" "\<forall>i\<le>k. s ! i = min (int i * step) tot"
      "\<forall>i<k. l ! i = min step (tot - s ! i)" by auto
  have sk: "s ! k = min (int k * step) tot" using ih by simp
  have nxt: "s ! k + min step (tot - s ! k) = min (int (Suc k) * step) tot"
    using assms sk by (auto simp: min_def algebra_simps)
  have st: "fold (shard_body step tot) [0..<Suc k] ((replicate m 0)[0 := 0], replicate m 0)
     = (s[Suc k := s ! k + min step (tot - s ! k)], l[k := min step (tot - s ! k)])"
    using Suc.prems ih by (simp add: sl shard_body_def Let_def)
  show ?case unfolding st using Suc.prems ih nxt
    by (auto simp: nth_list_update less_Suc_eq le_Suc_eq)
qed


lemma feature_shards_closed:
  assumes "0 \<le> tot" "1 \<le> M" "1 \<le> shard_step tot M"
  shows "\<exists>start len. feature_shards tot M = Inr (start, len)
     \<and> length start = nat M \<and> length len = nat M
     \<and> (\<forall>i<nat M. start ! i = min (int i * shard_step tot M) tot)
     \<and> (\<forall>i. Suc i < nat M \<longrightarrow> len ! i = min (shard_step tot M) (tot - start ! i))
     \<and> len ! (nat M - 1) = tot - start ! (nat M - 1)"
proof -
  let ?step = "shard_step tot M" and ?m = "nat M"
  obtain s l where sl: "fold (shard_body ?step tot) [0..<?m - 1]
       ((replicate ?m 0)[0 := 0], replicate ?m 0) = (s, l)" by force
  have "?m - 1 < ?m" using assms by simp
  from shard_fold_inv[OF assms(1) assms(3) this] sl
  have inv: "length s = ?m" "length l = ?m" "\<forall>i\<le>?m - 1. s ! i = min (int i * ?step) tot"
      "\<forall>i<?m - 1. l ! i = min ?step (tot - s ! i)" by auto
  have "feature_shards tot M = Inr (s, l[?m - 1 := tot - s ! (?m - 1)])"
    using assms sl by (simp add: feature_shards_def Let_def)
  moreover have "\<forall>i<?m. s ! i = min (int i * ?step) tot" using inv(3) by auto
  moreover have "\<forall>i. Suc i < ?m \<longrightarrow> (l[?m - 1 := tot - s ! (?m - 1)]) ! i = min ?step (tot - s ! i)"
    using inv by (auto simp: nth_list_update)
  moreover have "(l[?m - 1 := tot - s ! (?m - 1)]) ! (?m - 1) = tot - s ! (?m - 1)"
    using inv assms by simp
  ultimately show ?thesis using inv by simp
qed


lemma shard_of_column:
  assumes "1 \<le> step" "0 \<le> c"
  shows "(int i * step \<le> c \<and> c < (int i + 1) * step) = (i = nat (c div step))"
proof
  assume a: "int i * step \<le> c \<and> c < (int i + 1) * step"
  have "c div step = int i"
    by (rule int_div_pos_eq[where r = "c - int i * step"]) (use a in \<open>auto simp: algebra_simps\<close>)
  then show "i = nat (c div step)" by simp
next
  assume i: "i = nat (c div step)"
  have nn: "0 \<le> c div step" using assms by (simp add: pos_imp_zdiv_nonneg_iff)
  have e: "step * (c div step) + c mod step = c" by simp
  have b: "0 \<le> c mod step" "c mod step < step" using assms by simp_all
  have l: "int i * step = step * (c div step)" using nn i by simp
  have r: "(int i + 1) * step = step * (c div step) + step" using l by (simp add: algebra_simps)
  show "int i * step \<le> c \<and> c < (int i + 1) * step"
    unfolding l r using e b by linarith
qed

text \<open>
  C8, as amended. For every \<open>total_num_feature \<ge> 0\<close> and \<open>num_machines \<ge> 1\<close>
  whose sum \<open>total_num_feature + num_machines - 1\<close> fits a 32-bit \<open>int\<close>, the shards
  \<open>[start[i], start[i] + len[i])\<close> are contiguous, each length is non-negative and at
  most the ceiling of \<open>total_num_feature / num_machines\<close>, every column of
  \<open>[0, total_num_feature)\<close> lies in exactly one shard and no shard leaves that range,
  and the last shard takes all remaining columns.
\<close>

theorem feature_shards_partition:
  assumes "0 \<le> total_num_feature" "1 \<le> num_machines"
    and "total_num_feature + num_machines - 1 \<le> 2147483647"
  shows "\<exists>start len. feature_shards total_num_feature num_machines = Inr (start, len)
     \<and> length start = nat num_machines \<and> length len = nat num_machines
     \<and> (\<forall>i. Suc i < nat num_machines \<longrightarrow> start ! Suc i = start ! i + len ! i)
     \<and> (\<forall>i<nat num_machines. 0 \<le> len ! i
            \<and> len ! i \<le> \<lceil>real_of_int total_num_feature / real_of_int num_machines\<rceil>)
     \<and> (\<forall>c. 0 \<le> c \<and> c < total_num_feature \<longrightarrow>
            (\<exists>!i. i < nat num_machines \<and> start ! i \<le> c \<and> c < start ! i + len ! i))
     \<and> (\<forall>i<nat num_machines. \<forall>c. start ! i \<le> c \<and> c < start ! i + len ! i \<longrightarrow>
            0 \<le> c \<and> c < total_num_feature)
     \<and> len ! (nat num_machines - 1) = total_num_feature - start ! (nat num_machines - 1)"
proof -
  let ?t = total_num_feature and ?m = "nat num_machines"
  let ?step = "shard_step ?t num_machines"
  obtain start len where fs: "feature_shards ?t num_machines = Inr (start, len)"
    and ls: "length start = ?m" and ll: "length len = ?m"
    and st: "\<And>i. i < ?m \<Longrightarrow> start ! i = min (int i * ?step) ?t"
    and ln: "\<And>i. Suc i < ?m \<Longrightarrow> len ! i = min ?step (?t - start ! i)"
    and lst: "len ! (?m - 1) = ?t - start ! (?m - 1)"
    using feature_shards_closed[OF assms(1,2) shard_step_covers(1)[OF assms]] by blast
  have step1: "1 \<le> ?step" and cov: "?t \<le> num_machines * ?step"
    using shard_step_covers[OF assms] by simp_all
  have m0: "0 < ?m" using assms by simp
  have ends: "start ! i + len ! i = min ((int i + 1) * ?step) ?t" if "i < ?m" for i
  proof (cases "Suc i < ?m")
    case True
    then show ?thesis using st[OF that] ln[OF True] step1 assms
      by (auto simp: min_def algebra_simps)
  next
    case False
    then have i: "i = ?m - 1" using that by simp
    then have "int i + 1 = num_machines" using assms by simp
    then have "?t \<le> (int i + 1) * ?step" using cov by simp
    then have "min ((int i + 1) * ?step) ?t = ?t" by (simp only: min_absorb2)
    moreover have "start ! i + len ! i = ?t" unfolding i using lst by simp
    ultimately show ?thesis by simp
  qed
  have contig: "\<forall>i. Suc i < ?m \<longrightarrow> start ! Suc i = start ! i + len ! i"
    using st ends by (simp add: algebra_simps)
  have mono: "int i * ?step \<le> (int i + 1) * ?step" for i
    using step1 by (simp add: algebra_simps)
  have bound: "0 \<le> len ! i \<and> len ! i \<le> \<lceil>real_of_int ?t / real_of_int num_machines\<rceil>"
    if "i < ?m" for i
  proof -
    have e: "len ! i = min ((int i + 1) * ?step) ?t - min (int i * ?step) ?t"
      using ends[OF that] st[OF that] by simp
    have nn: "0 \<le> len ! i" using e mono[of i] by (simp add: min_def)
    have le_step: "len ! i \<le> ?step" using e step1
      by (auto simp: min_def algebra_simps split: if_splits)
    have i0: "0 \<le> int i * ?step" using step1 by simp
    show ?thesis
    proof (cases "?t = 0")
      case True
      have i1: "0 \<le> (int i + 1) * ?step" using step1 by simp
      have "len ! i = 0" unfolding e True using i0 i1 True by (simp only: min_absorb2)
      then show ?thesis using True by simp
    next
      case False
      then have "0 < real_of_int ?t / real_of_int num_machines" using assms by simp
      then have "1 \<le> \<lceil>real_of_int ?t / real_of_int num_machines\<rceil>" by simp
      then have "?step = \<lceil>real_of_int ?t / real_of_int num_machines\<rceil>"
        using shard_step_ceiling[OF assms] by simp
      then show ?thesis using nn le_step by simp
    qed
  qed
  have within: "(start ! i \<le> c \<and> c < start ! i + len ! i) = (i = nat (c div ?step))"
    if "i < ?m" "0 \<le> c" "c < ?t" for i c
  proof -
    have a: "(start ! i \<le> c) = (int i * ?step \<le> c)"
      using that(3) by (simp add: st[OF that(1)] min_le_iff_disj)
    have b: "(c < start ! i + len ! i) = (c < (int i + 1) * ?step)"
      using that(3) by (simp add: ends[OF that(1)])
    show ?thesis unfolding a b by (rule shard_of_column[OF step1 that(2)])
  qed
  have uniq: "\<exists>!i. i < ?m \<and> start ! i \<le> c \<and> c < start ! i + len ! i"
    if c: "0 \<le> c" "c < ?t" for c
  proof -
    have "c div ?step < num_machines"
    proof -
      have e: "?step * (c div ?step) + c mod ?step = c" by simp
      have cm: "num_machines * ?step = ?step * num_machines" by (simp add: mult.commute)
      have "0 \<le> c mod ?step" using step1 by simp
      then have "?step * (c div ?step) < ?step * num_machines"
        using e c cov cm by linarith
      then show ?thesis using step1 by (simp add: mult_less_cancel_left_pos)
    qed
    then have lt: "nat (c div ?step) < ?m" using assms by simp
    show ?thesis
    proof (rule ex1I[of _ "nat (c div ?step)"])
      show "nat (c div ?step) < ?m \<and> start ! nat (c div ?step) \<le> c
          \<and> c < start ! nat (c div ?step) + len ! nat (c div ?step)"
        using within[OF lt c] lt by blast
    next
      fix i assume "i < ?m \<and> start ! i \<le> c \<and> c < start ! i + len ! i"
      then show "i = nat (c div ?step)" using within[OF _ c] by blast
    qed
  qed
  have inside: "\<forall>i<?m. \<forall>c. start ! i \<le> c \<and> c < start ! i + len ! i \<longrightarrow> 0 \<le> c \<and> c < ?t"
  proof (intro allI impI)
    fix i c assume i: "i < ?m" and c: "start ! i \<le> c \<and> c < start ! i + len ! i"
    have "0 \<le> int i * ?step" using step1 by simp
    then have "0 \<le> start ! i" using st[OF i] assms by simp
    moreover have "start ! i + len ! i \<le> ?t" using ends[OF i] by simp
    ultimately show "0 \<le> c \<and> c < ?t" using c by simp
  qed
  have bound_all: "\<forall>i<?m. 0 \<le> len ! i
      \<and> len ! i \<le> \<lceil>real_of_int ?t / real_of_int num_machines\<rceil>"
    using bound by blast
  have uniq_all: "\<forall>c. 0 \<le> c \<and> c < ?t \<longrightarrow>
      (\<exists>!i. i < ?m \<and> start ! i \<le> c \<and> c < start ! i + len ! i)"
    using uniq by blast
  show ?thesis
    by (intro exI[of _ start] exI[of _ len] conjI)
       (fact fs ls ll contig bound_all uniq_all inside lst)+
qed

theorem feature_shards_partition_witness:
  "feature_shards 10 4 = Inr ([0, 3, 6, 9], [3, 3, 3, 1])
   \<and> (\<exists>!i. i < (4::nat) \<and> [0, 3, 6, 9::int] ! i \<le> 7
           \<and> 7 < [0, 3, 6, 9::int] ! i + [3, 3, 3, 1::int] ! i)"
proof -
  have e: "feature_shards 10 4 = Inr ([0, 3, 6, 9], [3, 3, 3, 1])"
    by (simp add: feature_shards_def shard_step_def shard_body_def int32_def
          signed_divide_int_def Let_def upt_rec numeral_eq_Suc)
  have h: "(0::int) \<le> 10" "(1::int) \<le> 4" "(10::int) + 4 - 1 \<le> 2147483647" by simp_all
  obtain start len where r: "feature_shards 10 4 = Inr (start, len)"
    and u: "\<forall>c. 0 \<le> c \<and> c < 10 \<longrightarrow>
          (\<exists>!i. i < nat 4 \<and> start ! i \<le> c \<and> c < start ! i + len ! i)"
    using feature_shards_partition[OF h] by blast
  from r e have s: "start = [0, 3, 6, 9]" "len = [3, 3, 3, 1]" by simp_all
  have "\<exists>!i. i < nat 4 \<and> start ! i \<le> 7 \<and> 7 < start ! i + len ! i"
    using u by simp
  then show ?thesis unfolding s using e by simp
qed

text \<open>
  C8 as stated fails where the sum of line 659 leaves the 32-bit range: for
  \<open>total_num_feature = 2147483647\<close> and two machines the wrapped sum is negative, the
  step is clamped to 1, and the last shard has \<open>2147483646\<close> columns, more than the
  ceiling \<open>1073741824\<close>.
\<close>

theorem feature_shards_overflow_counterexample:
  "feature_shards 2147483647 2 = Inr ([0, 1], [1, 2147483646])
   \<and> \<lceil>real_of_int 2147483647 / real_of_int 2\<rceil> < [1, 2147483646] ! 1"
proof -
  have "\<lceil>real_of_int 2147483647 / real_of_int 2\<rceil> = (2147483647 + 2 - 1) div 2"
    by (rule ceil_div) simp
  then have c: "\<lceil>real_of_int 2147483647 / real_of_int 2\<rceil> = 1073741824" by simp
  have e: "feature_shards 2147483647 2 = Inr ([0, 1], [1, 2147483646])"
    by (simp add: feature_shards_def shard_step_def shard_body_def int32_def
          signed_divide_int_def Let_def upt_rec numeral_eq_Suc)
  show ?thesis unfolding c using e by simp
qed

subsection \<open>Sample values and assembly loops\<close>




lemma assemble_column_kept:
  assumes "column_kept ext mapper i"
  shows "assemble_column ext cfg im tm mapper i (d, ws) =
     Inr (d\<lparr>used_feature_map := (used_feature_map d)[i := static_cast_int (length (features d))],
            features := features d @ [kept_Feature cfg mapper (num_data d) i]\<rparr>, ws)"
  using assms
  by (auto simp: assemble_column_def column_kept_def kept_Feature_def split: option.splits)

lemma assemble_column_dropped:
  assumes "\<not> column_kept ext mapper i"
  shows "assemble_column ext cfg im tm mapper i (d, ws) =
     bind_err (drop_msg im tm mapper i) (\<lambda>m. Inr (d, ws @ [m]))"
  using assms
  by (auto simp: assemble_column_def column_kept_def drop_msg_def split: option.splits)

lemma assemble_Inr:
  assumes "assemble ext cfg im tm mapper n (d, ws) = Inr (d', ws')"
  shows "d' = d\<lparr>used_feature_map := used_feature_map d',
                features := features d @
                  map (kept_Feature cfg mapper (num_data d)) (filter (column_kept ext mapper) [0..<n])\<rparr>
     \<and> length (used_feature_map d') = length (used_feature_map d)
     \<and> (\<forall>i<length (used_feature_map d).
           used_feature_map d' ! i =
             (if i < n \<and> column_kept ext mapper i
              then static_cast_int (length (features d) + length (filter (column_kept ext mapper) [0..<i]))
              else used_feature_map d ! i))
     \<and> (\<exists>ms. ws' = ws @ ms \<and>
           map Inr ms = map (drop_msg im tm mapper) (filter (\<lambda>i. \<not> column_kept ext mapper i) [0..<n]))"
  using assms
proof (induction n arbitrary: d' ws')
  case 0
  then show ?case by (simp add: assemble_def)
next
  case (Suc n)
  let ?K = "column_kept ext mapper"
  from Suc.prems obtain d1 ws1 where
    a: "assemble ext cfg im tm mapper n (d, ws) = Inr (d1, ws1)" and
    s: "assemble_column ext cfg im tm mapper n (d1, ws1) = Inr (d', ws')"
    by (auto simp: assemble_def fold_err_snoc bind_err_Inr)
  from Suc.IH[OF a] obtain ms where
    d1: "d1 = d\<lparr>used_feature_map := used_feature_map d1,
                features := features d @ map (kept_Feature cfg mapper (num_data d)) (filter ?K [0..<n])\<rparr>"
    and len: "length (used_feature_map d1) = length (used_feature_map d)"
    and u: "\<forall>i<length (used_feature_map d).
           used_feature_map d1 ! i =
             (if i < n \<and> ?K i
              then static_cast_int (length (features d) + length (filter ?K [0..<i]))
              else used_feature_map d ! i)"
    and ws1: "ws1 = ws @ ms"
    and ms: "map Inr ms = map (drop_msg im tm mapper) (filter (\<lambda>i. \<not> ?K i) [0..<n])"
    by blast
  have nd: "num_data d1 = num_data d" by (subst d1) simp
  have fs: "features d1 = features d @ map (kept_Feature cfg mapper (num_data d)) (filter ?K [0..<n])"
    by (subst d1) simp
  show ?case
  proof (cases "?K n")
    case True
    from s have d': "d' = d1\<lparr>used_feature_map := (used_feature_map d1)[n := static_cast_int (length (features d1))],
            features := features d1 @ [kept_Feature cfg mapper (num_data d1) n]\<rparr>" and w: "ws' = ws1"
      by (simp_all add: assemble_column_kept[OF True])
    have 1: "d' = d\<lparr>used_feature_map := used_feature_map d',
                features := features d @
                  map (kept_Feature cfg mapper (num_data d)) (filter ?K [0..<Suc n])\<rparr>"
      unfolding d' using True fs nd by (subst d1) simp
    have 2: "length (used_feature_map d') = length (used_feature_map d)"
      by (simp add: d' len)
    have 3: "\<forall>i<length (used_feature_map d).
           used_feature_map d' ! i =
             (if i < Suc n \<and> ?K i
              then static_cast_int (length (features d) + length (filter ?K [0..<i]))
              else used_feature_map d ! i)"
    proof (intro allI impI)
      fix i assume i: "i < length (used_feature_map d)"
      show "used_feature_map d' ! i =
             (if i < Suc n \<and> ?K i
              then static_cast_int (length (features d) + length (filter ?K [0..<i]))
              else used_feature_map d ! i)"
      proof (cases "i = n")
        case eq: True
        then show ?thesis using i len True by (simp add: d' fs)
      next
        case ne: False
        then show ?thesis using u i by (auto simp: d' less_Suc_eq)
      qed
    qed
    have 4: "\<exists>ms. ws' = ws @ ms \<and>
           map Inr ms = map (drop_msg im tm mapper) (filter (\<lambda>i. \<not> ?K i) [0..<Suc n])"
      using ws1 ms w True by auto
    show ?thesis using 1 2 3 4 by blast
  next
    case False
    from s obtain m where m: "drop_msg im tm mapper n = Inr m" and d': "d' = d1" and w: "ws' = ws1 @ [m]"
      by (auto simp: assemble_column_dropped[OF False] bind_err_Inr)
    have 1: "d' = d\<lparr>used_feature_map := used_feature_map d',
                features := features d @
                  map (kept_Feature cfg mapper (num_data d)) (filter ?K [0..<Suc n])\<rparr>"
      unfolding d' using False by (subst d1) simp
    have 3: "\<forall>i<length (used_feature_map d).
           used_feature_map d' ! i =
             (if i < Suc n \<and> ?K i
              then static_cast_int (length (features d) + length (filter ?K [0..<i]))
              else used_feature_map d ! i)"
      using u False by (auto simp: d' less_Suc_eq)
    have "ws' = ws @ (ms @ [m]) \<and>
           map Inr (ms @ [m]) = map (drop_msg im tm mapper) (filter (\<lambda>i. \<not> ?K i) [0..<Suc n])"
      using ws1 ms w False m by simp
    then have 4: "\<exists>ms. ws' = ws @ ms \<and>
           map Inr ms = map (drop_msg im tm mapper) (filter (\<lambda>i. \<not> ?K i) [0..<Suc n])"
      by blast
    show ?thesis using 1 len 3 4 unfolding d' by blast
  qed
qed


lemma filter_nonneg_ranks:
  "filter (\<lambda>v. 0 \<le> v) (map (\<lambda>i. if K i then int (length (filter K [0..<i])) else - 1) [0..<n])
     = map int [0..<length (filter K [0..<n])]"
  by (induction n) simp_all

lemma rank_mono:
  assumes "i < j" "K i"
  shows "length (filter K [0..<i]) < length (filter K [0..<j])"
proof -
  have "[0..<j] = [0..<i] @ i # [Suc i..<j]"
    using assms(1) by (metis less_imp_add_positive upt_add_eq_append upt_conv_Cons zero_le)
  then show ?thesis using assms(2) by simp
qed

lemma assemble_fresh:
  assumes a: "assemble ext cfg im tm mapper n (d, ws) = Inr (d', ws')"
    and u: "used_feature_map d = replicate n (- 1)" and f: "features d = []"
    and small: "n < 2147483648"
  shows "used_feature_map d' =
           map (\<lambda>i. if column_kept ext mapper i
                    then int (length (filter (column_kept ext mapper) [0..<i])) else - 1) [0..<n]"
    and "features d' = map (kept_Feature cfg mapper (num_data d)) (filter (column_kept ext mapper) [0..<n])"
    and "\<exists>ms. ws' = ws @ ms \<and>
           map Inr ms = map (drop_msg im tm mapper) (filter (\<lambda>i. \<not> column_kept ext mapper i) [0..<n])"
    and "d' = d\<lparr>used_feature_map := used_feature_map d', features := features d'\<rparr>"
proof -
  note r = assemble_Inr[OF a]
  from r have d': "d' = d\<lparr>used_feature_map := used_feature_map d',
                features := features d @
                  map (kept_Feature cfg mapper (num_data d)) (filter (column_kept ext mapper) [0..<n])\<rparr>"
    by blast
  have "features d' = features d @
      map (kept_Feature cfg mapper (num_data d)) (filter (column_kept ext mapper) [0..<n])"
    by (subst d') simp
  then show 2: "features d' = map (kept_Feature cfg mapper (num_data d)) (filter (column_kept ext mapper) [0..<n])"
    by (simp add: f)
  show "d' = d\<lparr>used_feature_map := used_feature_map d', features := features d'\<rparr>"
    using d' unfolding 2 f by simp
  from r show "\<exists>ms. ws' = ws @ ms \<and>
           map Inr ms = map (drop_msg im tm mapper) (filter (\<lambda>i. \<not> column_kept ext mapper i) [0..<n])"
    by blast
  from r have len: "length (used_feature_map d') = n" by (simp add: u)
  have rk: "static_cast_int (length (filter (column_kept ext mapper) [0..<i]))
             = int (length (filter (column_kept ext mapper) [0..<i]))" if "i < n" for i
  proof -
    have "length (filter (column_kept ext mapper) [0..<i]) \<le> length [0..<i]"
      by (rule length_filter_le)
    then show ?thesis using that small by (intro static_cast_int_id) simp
  qed
  from r have nth: "\<And>i. i < n \<Longrightarrow> used_feature_map d' ! i =
             (if column_kept ext mapper i
              then int (length (filter (column_kept ext mapper) [0..<i])) else - 1)"
    by (simp add: u f rk)
  show "used_feature_map d' =
           map (\<lambda>i. if column_kept ext mapper i
                    then int (length (filter (column_kept ext mapper) [0..<i])) else - 1) [0..<n]"
    by (rule nth_equalityI) (simp_all add: len nth)
qed




lemma find_bin_mappers_None:
  assumes "find_bin_mappers ext rank num_machines L sv k = Inr mapper"
    and "static_cast_int (length sv) = int (length sv)" and "i < length sv"
  shows "(mapper i = None) = (int i \<in> ignore_features L)"
  using assms
  by (auto simp: find_bin_mappers_def local_bin_mapper_def gathered_bin_mapper_def
      bind_err_Inr split: if_splits)


lemma sample_bin_mapper_Some:
  assumes "static_cast_int (length sample_values) = int (length sample_values)"
    and "i < length sample_values"
  shows "sample_bin_mapper ext L sample_values k i
         = Some (FindBin ext (sample_values ! i) k (max_bin (io_config L)))"
  using assms by (simp add: sample_bin_mapper_def)

lemma CostructFromSampleData_result:
  assumes "CostructFromSampleData ext sample_values total_sample_size n_data L = Inr (d, L')"
  shows "\<exists>ms. length sample_values < 2147483648
    \<and> num_total_features d = int (length sample_values)
    \<and> used_feature_map d =
          map (\<lambda>i. if column_kept ext (sample_bin_mapper ext L sample_values total_sample_size) i
                   then int (length (filter (column_kept ext (sample_bin_mapper ext L sample_values total_sample_size)) [0..<i]))
                   else - 1) [0..<length sample_values]
    \<and> features d = map (kept_Feature (io_config L) (sample_bin_mapper ext L sample_values total_sample_size) n_data)
                       (filter (column_kept ext (sample_bin_mapper ext L sample_values total_sample_size)) [0..<length sample_values])
    \<and> num_features d = int (length (features d))
    \<and> warnings L' = warnings L @ ms
    \<and> map Inr ms = map (drop_msg null_bin_mapper column_msg (sample_bin_mapper ext L sample_values total_sample_size))
            (filter (\<lambda>i. \<not> column_kept ext (sample_bin_mapper ext L sample_values total_sample_size) i) [0..<length sample_values])
    \<and> metadata d = [Init_data n_data (num_class (io_config L)) NO_SPECIFIC NO_SPECIFIC]"
proof -
  let ?mp = "sample_bin_mapper ext L sample_values total_sample_size"
  let ?n = "length sample_values"
  let ?K = "column_kept ext ?mp"
  let ?d1 = "new_Dataset\<lparr>dataset_num_class := num_class (io_config L), features := [],
                 num_data := n_data, used_feature_map := replicate ?n (- 1),
                 num_total_features := static_cast_int ?n\<rparr>"
  from assms obtain d2 ws where
    a: "assemble ext (io_config L) null_bin_mapper column_msg ?mp ?n (?d1, warnings L) = Inr (d2, ws)"
    and d: "d = d2\<lparr>dataset_feature_names :=
                    fill_feature_names (nat (num_total_features d2)) (feature_names L),
                 num_features := static_cast_int (length (features d2)),
                 metadata := metadata d2 @ [Init_data (num_data d2) (dataset_num_class d2) NO_SPECIFIC NO_SPECIFIC]\<rparr>"
    by (auto simp: CostructFromSampleData_def bind_err_Inr Let_def)
  from assms a have L': "warnings L' = ws"
    by (auto simp: CostructFromSampleData_def bind_err_Inr Let_def)
  from assemble_Inr[OF a] obtain ms where ms: "ws = warnings L @ ms"
    "map Inr ms = map (drop_msg null_bin_mapper column_msg ?mp) (filter (\<lambda>i. \<not> ?K i) [0..<?n])"
    by blast
  have some: "?mp i \<noteq> None" if "i < ?n" for i
  proof
    assume none: "?mp i = None"
    then have nk: "\<not> ?K i" by (simp add: column_kept_def)
    then have "i \<in> set (filter (\<lambda>i. \<not> ?K i) [0..<?n])" using that by simp
    then have "drop_msg null_bin_mapper column_msg ?mp i \<in> set (map Inr ms)"
      unfolding ms(2) set_map by (rule imageI)
    then show False using none by (auto simp: drop_msg_def null_bin_mapper_def)
  qed
  have small: "?n < 2147483648"
  proof (cases "?n = 0")
    case True
    then show ?thesis by simp
  next
    case False
    then have "?mp (?n - 1) \<noteq> None" by (intro some) simp
    then have lt: "int (?n - 1) < static_cast_int ?n" by (simp add: sample_bin_mapper_def split: if_splits)
    have "static_cast_int ?n < 2147483648" by (simp add: static_cast_int_def int32_def)
    then show ?thesis using lt False by linarith
  qed
  then have cast: "static_cast_int ?n = int ?n" by (rule static_cast_int_id)
  have u0: "used_feature_map ?d1 = replicate ?n (- 1)" and f0: "features ?d1 = []"
    by simp_all
  note r = assemble_fresh[OF a u0 f0 small]
  have u: "used_feature_map d2 =
          map (\<lambda>i. if ?K i then int (length (filter ?K [0..<i])) else - 1) [0..<?n]"
    using r(1) by simp
  have fs: "features d2 = map (kept_Feature (io_config L) ?mp n_data) (filter ?K [0..<?n])"
    using r(2) by simp
  have other: "num_total_features d2 = int ?n" "metadata d2 = []" "num_data d2 = n_data"
      "dataset_num_class d2 = num_class (io_config L)"
    by (subst r(4), simp add: new_Dataset_def cast)+
  have "length (filter ?K [0..<?n]) \<le> length [0..<?n]"
    by (rule length_filter_le)
  then have nf: "static_cast_int (length (filter ?K [0..<?n])) = int (length (filter ?K [0..<?n]))"
    using small by (intro static_cast_int_id) simp
  show ?thesis
    apply (rule exI[of _ ms])
    using ms small L' by (simp add: d u fs other nf)
qed

subsection \<open>SetHeader\<close>















subsection \<open>Column roles and the constructed dataset\<close>






subsection \<open>The guard of LoadFromFile\<close>

text \<open>
  C1 fails on the code when the query id is the first column after the label.
  \<open>group_column = "1"\<close> with the label in column 0 resolves to \<open>group_idx = 0\<close>, which
  is set (not \<open>NO_SPECIFIC\<close>), but the guard of lines 139-144 tests
  \<open>group_idx_ > 0\<close>: with two machines and no pre-partitioning it lets the call
  through, and \<open>LoadFromFile\<close> partitions the file row by row, giving rank 0 the second
  row of each of the two queries.
\<close>

theorem query_id_in_first_column_not_rejected:
  "SetHeader example_ext [] (new_DatasetLoader example_query_config 42) = Inr example_query_loader
   \<and> group_idx example_query_loader = 0
   \<and> group_idx example_query_loader \<noteq> NO_SPECIFIC
   \<and> \<not> is_pre_partition (io_config example_query_loader)
   \<and> query_boundaries (example_file example_query_lines) = None
   \<and> check_query_id 2 example_query_loader = Inr ()
   \<and> \<not> isl (LoadFromFile example_ext (example_file example_query_lines) 0 2 example_query_loader)
   \<and> metadata (fst (projr (LoadFromFile example_ext (example_file example_query_lines) 0 2
                               example_query_loader)))
       = [Init_from_file ''train.txt'' 1, Init_data 2 1 (- 1) 0, CheckOrPartition 4 [1, 3]]"
  by code_simp

end
